theory Spec2Isabelle
  imports Main "HOL-Library.Multiset"
begin

section \<open>Data model\<close>

text \<open>
  A cell of a dataframe column is null, an integer, a string or a calendar date
  (\<open>datetime.date(year, month, day)\<close>). Equality of two cells is Python's \<open>==\<close> on these
  four kinds of value: values of different kinds are never equal.
\<close>

datatype pyval = PNone | PInt int | PStr string | PDate int int int

text \<open>
  A value of the \<open>batch_identifiers\<close> dict: a plain value, or (for the date-part
  splitters) a nested dict from date-part name to value.
\<close>

datatype ident = Scalar pyval | Mapping "(string \<times> pyval) list"

text \<open>The Python type of a value.\<close>

datatype pytype = NoneType | IntType | StrType | DateType | DictType

fun py_type :: "pyval \<Rightarrow> pytype" where
  "py_type PNone = NoneType"
| "py_type (PInt i) = IntType"
| "py_type (PStr s) = StrType"
| "py_type (PDate y m d) = DateType"

fun ident_type :: "ident \<Rightarrow> pytype" where
  "ident_type (Scalar v) = py_type v"
| "ident_type (Mapping m) = DictType"

text \<open>
  The exceptions the splitter can raise or let escape. \<open>ValueError\<close>,
  \<open>ExecutionEngineError\<close> and \<open>InvalidConfigError\<close> carry their message.
\<close>

datatype error =
    KeyError string
  | ColumnNotFoundError string
  | ZeroDivisionError
  | TypeError
  | AttributeError string
  | ComputeError
  | ValueError string
  | ExecutionEngineError string
  | InvalidConfigError string

text \<open>A Python dict with string keys, in insertion order.\<close>

type_synonym 'v dict = "(string \<times> 'v) list"

text \<open>\<open>d[k]\<close>: raises \<open>KeyError\<close> when the key is absent.\<close>

definition dict_getitem :: "'v dict \<Rightarrow> string \<Rightarrow> error + 'v" where
  "dict_getitem d k = (case map_of d k of None \<Rightarrow> Inl (KeyError k) | Some v \<Rightarrow> Inr v)"

text \<open>\<open>d.get(k)\<close>: \<open>None\<close> when the key is absent.\<close>

definition dict_get :: "'v dict \<Rightarrow> string \<Rightarrow> 'v option" where
  "dict_get d k = map_of d k"

text \<open>\<open>d[k] = v\<close>: an existing key keeps its position, a new key goes last.\<close>

fun dict_setitem :: "'v dict \<Rightarrow> string \<Rightarrow> 'v \<Rightarrow> 'v dict" where
  "dict_setitem [] k v = [(k, v)]"
| "dict_setitem ((k', v') # d) k v =
     (if k' = k then (k, v) # d else (k', v') # dict_setitem d k v)"

text \<open>
  A dataframe: its column names and its rows, each row giving the cells by column name
  (a name the row does not give is a null cell). Rows keep their order.
\<close>

type_synonym row = "(string \<times> pyval) list"

record dataframe =
  columns :: "string list"
  rows :: "row list"

definition cell :: "row \<Rightarrow> string \<Rightarrow> pyval" where
  "cell r c = (case map_of r c of None \<Rightarrow> PNone | Some v \<Rightarrow> v)"

text \<open>\<open>df[column_name]\<close>: the column as a series, or the library's error for an unknown column.\<close>

definition get_column :: "dataframe \<Rightarrow> string \<Rightarrow> error + pyval list" where
  "get_column df c =
     (if c \<in> set (columns df) then Inr (map (\<lambda>r. cell r c) (rows df))
      else Inl (ColumnNotFoundError c))"

text \<open>\<open>df[mask]\<close> with a boolean series: the rows whose mask entry is true, in order.\<close>

definition filter_mask :: "dataframe \<Rightarrow> bool list \<Rightarrow> dataframe" where
  "filter_mask df bs = df\<lparr>rows := map fst (filter snd (zip (rows df) bs))\<rparr>"

text \<open>
  Python's \<open>x == v\<close> between a cell value and an identifier value: it raises nothing, and
  values of different types are unequal (a nested mapping equals no cell value).
\<close>

definition py_eq :: "pyval \<Rightarrow> ident \<Rightarrow> bool" where
  "py_eq x v = (case v of Scalar w \<Rightarrow> x = w | Mapping m \<Rightarrow> False)"

text \<open>
  Modelled from the spec: the dataframe library's comparison \<open>series == value\<close>, which is
  not part of the repository. The spec gives it as exact equality cell by cell, where a
  value of another type matches no cell and is no failure.
\<close>

definition series_eq :: "pyval list \<Rightarrow> ident \<Rightarrow> bool list" where
  "series_eq s v = map (\<lambda>x. py_eq x v) s"

text \<open>
  The run of \<open>series.apply(f)\<close> over the cells, with a Python function giving a boolean:
  null cells are skipped (their mask entry is null, so the row is dropped), the function
  runs on the other cells in row order, and the first exception it raises escapes (the
  model keeps the Python exception, whatever the library wraps it in).
\<close>

fun apply_cells :: "(pyval \<Rightarrow> error + bool) \<Rightarrow> pyval list \<Rightarrow> error + bool list" where
  "apply_cells f [] = Inr []"
| "apply_cells f (x # xs) =
     (if x = PNone then
        (case apply_cells f xs of Inl e \<Rightarrow> Inl e | Inr bs \<Rightarrow> Inr (False # bs))
      else
        (case f x of
           Inl e \<Rightarrow> Inl e
         | Inr b \<Rightarrow> (case apply_cells f xs of Inl e \<Rightarrow> Inl e | Inr bs \<Rightarrow> Inr (b # bs))))"

text \<open>
  \<open>series.apply(f)\<close>: the library learns the type of the result from the first value the
  function returns. On a column with no cell that is not null (no rows, or nulls only) the
  function never runs and the series that comes back is not a boolean one: \<open>None\<close> here.
  Otherwise the result is the boolean mask.
\<close>

definition series_apply ::
  "(pyval \<Rightarrow> error + bool) \<Rightarrow> pyval list \<Rightarrow> error + bool list option" where
  "series_apply f s =
     (if list_all (\<lambda>x. x = PNone) s then Inr None
      else (case apply_cells f s of Inl e \<Rightarrow> Inl e | Inr bs \<Rightarrow> Inr (Some bs)))"

text \<open>
  \<open>df[matching_rows]\<close> with the series that \<open>apply\<close> returned: the rows of a boolean mask,
  and \<open>TypeError\<close> for a series that is not boolean.
\<close>

definition getitem_mask :: "dataframe \<Rightarrow> bool list option \<Rightarrow> error + dataframe" where
  "getitem_mask df matching_rows =
     (case matching_rows of None \<Rightarrow> Inl TypeError | Some bs \<Rightarrow> Inr (filter_mask df bs))"

section \<open>Splitting on a column value\<close>

text \<open>\<open>return df[df[column_name] == batch_identifiers[column_name]]\<close>\<close>

definition split_on_column_value :: "dataframe \<Rightarrow> string \<Rightarrow> ident dict \<Rightarrow> error + dataframe" where
  "split_on_column_value df column_name batch_identifiers =
     (case get_column df column_name of
        Inl e \<Rightarrow> Inl e
      | Inr s \<Rightarrow>
          (case dict_getitem batch_identifiers column_name of
             Inl e \<Rightarrow> Inl e
           | Inr v \<Rightarrow> Inr (filter_mask df (series_eq s v))))"

section \<open>Splitting on a divided integer and on a modulus\<close>

text \<open>
  The row function of \<open>split_on_divided_integer\<close>,
  \<open>lambda x: int(x / divisor) == matching_divisor\<close>. \<open>x / divisor\<close> is Python's true division:
  it raises \<open>ZeroDivisionError\<close> for a zero divisor and otherwise gives a float, which
  \<open>int\<close> truncates. The float arithmetic is not modelled: \<open>quo x divisor\<close> stands for
  \<open>int(x / divisor)\<close> at a non-zero divisor, and every theorem holds for every \<open>quo\<close>.
  A cell that is not an integer is outside the function's contract; Python raises
  \<open>TypeError\<close> for a string or a date operand.
\<close>

definition divided_integer_row ::
  "(int \<Rightarrow> int \<Rightarrow> int) \<Rightarrow> int \<Rightarrow> ident \<Rightarrow> pyval \<Rightarrow> error + bool" where
  "divided_integer_row quo divisor matching_divisor x =
     (case x of
        PInt i \<Rightarrow>
          (if divisor = 0 then Inl ZeroDivisionError
           else Inr (py_eq (PInt (quo i divisor)) matching_divisor))
      | _ \<Rightarrow> Inl TypeError)"

definition split_on_divided_integer ::
  "(int \<Rightarrow> int \<Rightarrow> int) \<Rightarrow> dataframe \<Rightarrow> string \<Rightarrow> int \<Rightarrow> ident dict \<Rightarrow> error + dataframe" where
  "split_on_divided_integer quo df column_name divisor batch_identifiers =
     (case dict_getitem batch_identifiers column_name of
        Inl e \<Rightarrow> Inl e
      | Inr matching_divisor \<Rightarrow>
          (case get_column df column_name of
             Inl e \<Rightarrow> Inl e
           | Inr s \<Rightarrow>
               (case series_apply (divided_integer_row quo divisor matching_divisor) s of
                  Inl e \<Rightarrow> Inl e
                | Inr matching_rows \<Rightarrow> getitem_mask df matching_rows)))"

text \<open>
  The row function of \<open>split_on_mod_integer\<close>, \<open>lambda x: x % mod == matching_mod_value\<close>.
  Python's \<open>%\<close> on integers takes the sign of the divisor, as \<open>mod\<close> on \<open>int\<close> does, and
  raises \<open>ZeroDivisionError\<close> for a zero modulus. A cell that is not an integer is outside
  the function's contract (on a string, \<open>%\<close> is Python's string formatting, which is not
  modelled); the model raises \<open>TypeError\<close> for it.
\<close>

definition mod_integer_row :: "int \<Rightarrow> ident \<Rightarrow> pyval \<Rightarrow> error + bool" where
  "mod_integer_row m matching_mod_value x =
     (case x of
        PInt i \<Rightarrow>
          (if m = 0 then Inl ZeroDivisionError
           else Inr (py_eq (PInt (i mod m)) matching_mod_value))
      | _ \<Rightarrow> Inl TypeError)"

definition split_on_mod_integer ::
  "dataframe \<Rightarrow> string \<Rightarrow> int \<Rightarrow> ident dict \<Rightarrow> error + dataframe" where
  "split_on_mod_integer df column_name m batch_identifiers =
     (case dict_getitem batch_identifiers column_name of
        Inl e \<Rightarrow> Inl e
      | Inr matching_mod_value \<Rightarrow>
          (case get_column df column_name of
             Inl e \<Rightarrow> Inl e
           | Inr s \<Rightarrow>
               (case series_apply (mod_integer_row m matching_mod_value) s of
                  Inl e \<Rightarrow> Inl e
                | Inr matching_rows \<Rightarrow> getitem_mask df matching_rows)))"

text \<open>
  The value of \<open>int(x / divisor)\<close> where the float quotient is exact, as it is for operands
  of small magnitude: the quotient truncated towards zero. The examples use it for \<open>quo\<close>.
\<close>

definition trunc_quo :: "int \<Rightarrow> int \<Rightarrow> int" where
  "trunc_quo x d = sgn x * sgn d * (\<bar>x\<bar> div \<bar>d\<bar>)"

section \<open>Splitting on the joint values of several columns\<close>

text \<open>Python's truth value of a batch identifier: \<open>None\<close>, \<open>0\<close>, \<open>''\<close> and \<open>{}\<close> are falsy.\<close>

fun truthy :: "ident \<Rightarrow> bool" where
  "truthy (Scalar PNone) = False"
| "truthy (Scalar (PInt i)) = (i \<noteq> 0)"
| "truthy (Scalar (PStr s)) = (s \<noteq> [])"
| "truthy (Scalar (PDate y m d)) = True"
| "truthy (Mapping m) = (m \<noteq> [])"

definition not_found_message :: "string \<Rightarrow> string" where
  "not_found_message column_name =
     ''In order for PolarsExecutionEngine to `_split_on_multi_column_values`, '' @
     ''all values in column_names must also exist in batch_identifiers. '' @
     column_name @ '' was not found in batch_identifiers.''"

text \<open>
  The loop of \<open>split_on_multi_column_values\<close> over \<open>column_names\<close>: each round reads the
  identifier with \<open>get\<close>, raises \<open>ValueError\<close> when it is missing or falsy, and otherwise
  narrows \<open>subset_df\<close> before the next round.
\<close>

fun multi_column_loop :: "dataframe \<Rightarrow> string list \<Rightarrow> ident dict \<Rightarrow> error + dataframe" where
  "multi_column_loop subset_df [] batch_identifiers = Inr subset_df"
| "multi_column_loop subset_df (column_name # rest) batch_identifiers =
     (case dict_get batch_identifiers column_name of
        None \<Rightarrow> Inl (ValueError (not_found_message column_name))
      | Some v \<Rightarrow>
          (if \<not> truthy v then Inl (ValueError (not_found_message column_name))
           else
             (case get_column subset_df column_name of
                Inl e \<Rightarrow> Inl e
              | Inr s \<Rightarrow>
                  multi_column_loop (filter_mask subset_df (series_eq s v)) rest
                    batch_identifiers)))"

definition split_on_multi_column_values ::
  "dataframe \<Rightarrow> string list \<Rightarrow> ident dict \<Rightarrow> error + dataframe" where
  "split_on_multi_column_values df column_names batch_identifiers =
     multi_column_loop df column_names batch_identifiers"

section \<open>Splitting on a hashed column\<close>

text \<open>\<open>str(x)\<close> of a cell: decimal digits for an integer, ISO format for a date.\<close>

fun str_nat :: "nat \<Rightarrow> string" where
  "str_nat n =
     (if n < 10 then [char_of (48 + n)]
      else str_nat (n div 10) @ [char_of (48 + n mod 10)])"

declare str_nat.simps [simp del]

definition str_int :: "int \<Rightarrow> string" where
  "str_int i = (if i < 0 then CHR ''-'' # str_nat (nat (- i)) else str_nat (nat i))"

definition zfill :: "nat \<Rightarrow> string \<Rightarrow> string" where
  "zfill width s = replicate (width - length s) CHR ''0'' @ s"

fun py_str :: "pyval \<Rightarrow> string" where
  "py_str PNone = ''None''"
| "py_str (PInt i) = str_int i"
| "py_str (PStr s) = s"
| "py_str (PDate y m d) =
     zfill 4 (str_int y) @ ''-'' @ zfill 2 (str_int m) @ ''-'' @ zfill 2 (str_int d)"

text \<open>\<open>s[start:]\<close>: a negative start counts from the end and is clamped to the beginning.\<close>

definition slice_from :: "int \<Rightarrow> 'a list \<Rightarrow> 'a list" where
  "slice_from start s =
     (if start < 0 then drop (nat (int (length s) + start)) s else drop (nat start) s)"

text \<open>
  The hash library is a parameter: \<open>hashlib name\<close> is \<open>None\<close> when \<open>getattr(hashlib, name)\<close>
  raises \<open>AttributeError\<close>, and otherwise the attribute, as the function taking the encoded
  text \<open>b\<close> to \<open>attribute(b).hexdigest()\<close> or to the exception that raises (an attribute
  need not be a hash constructor). A \<open>string\<close> is a list of bytes, so \<open>encode\<close> is the
  identity.
\<close>

type_synonym hash_method = "string \<Rightarrow> error + string"

definition invalid_hash_message :: "string \<Rightarrow> string" where
  "invalid_hash_message hash_function_name =
     ''The splitting method used with SparkDFExecutionEngine has a reference to an invalid hash_function_name.'' @
     [CHR 0x0A] @ replicate 24 CHR '' '' @
     ''Reference to '' @ hash_function_name @ '' cannot be found.''"

text \<open>
  The row function,
  \<open>lambda x: hash_method(str(x).encode()).hexdigest()[-1 * hash_digits :] == batch_identifiers["hash_value"]\<close>:
  the left operand is evaluated first, then the identifier is read.
\<close>

definition hashed_column_row ::
  "hash_method \<Rightarrow> int \<Rightarrow> ident dict \<Rightarrow> pyval \<Rightarrow> error + bool" where
  "hashed_column_row hash_method hash_digits batch_identifiers x =
     (case hash_method (py_str x) of
        Inl e \<Rightarrow> Inl e
      | Inr hexdigest \<Rightarrow>
          (case dict_getitem batch_identifiers ''hash_value'' of
             Inl e \<Rightarrow> Inl e
           | Inr v \<Rightarrow> Inr (py_eq (PStr (slice_from (-1 * hash_digits) hexdigest)) v)))"

definition split_on_hashed_column ::
  "(string \<Rightarrow> hash_method option) \<Rightarrow> dataframe \<Rightarrow> string \<Rightarrow> int \<Rightarrow> ident dict \<Rightarrow> string
     \<Rightarrow> error + dataframe" where
  "split_on_hashed_column hashlib df column_name hash_digits batch_identifiers hash_function_name =
     (case hashlib hash_function_name of
        None \<Rightarrow> Inl (ExecutionEngineError (invalid_hash_message hash_function_name))
      | Some hash_method \<Rightarrow>
          (case get_column df column_name of
             Inl e \<Rightarrow> Inl e
           | Inr s \<Rightarrow>
               (case series_apply (hashed_column_row hash_method hash_digits batch_identifiers) s of
                  Inl e \<Rightarrow> Inl e
                | Inr matching_rows \<Rightarrow> getitem_mask df matching_rows)))"

section \<open>Splitting on date parts\<close>

text \<open>
  Modelled from the spec: the enumeration \<open>DatePart\<close> of the base module
  \<open>data_splitter\<close>, which is not among the sources. The spec names YEAR, MONTH and DAY
  "and similar calendar granularities"; these three, the ones the splitter itself names, are
  modelled. The value of a member is its lower-case name, which is also the name of the
  accessor on a datetime-valued column.
\<close>

datatype DatePart = YEAR | MONTH | DAY

fun date_part_value :: "DatePart \<Rightarrow> string" where
  "date_part_value YEAR = ''year''"
| "date_part_value MONTH = ''month''"
| "date_part_value DAY = ''day''"

text \<open>A requested date part: a member of the enumeration or its name as text.\<close>

datatype date_part_arg = Part DatePart | Name string

text \<open>\<open>str.lower\<close> on ASCII text.\<close>

definition lower_char :: "char \<Rightarrow> char" where
  "lower_char ch =
     (let n = (of_char ch :: nat) in if 65 \<le> n \<and> n \<le> 90 then char_of (n + 32) else ch)"

definition py_lower :: "string \<Rightarrow> string" where
  "py_lower s = map lower_char s"

text \<open>
  Modelled from the spec: the lookup of a date part by its text, "comparable
  case-insensitively when supplied as text".
\<close>

definition date_part_of_name :: "string \<Rightarrow> DatePart option" where
  "date_part_of_name s =
     (if py_lower s = ''year'' then Some YEAR
      else if py_lower s = ''month'' then Some MONTH
      else if py_lower s = ''day'' then Some DAY
      else None)"

text \<open>
  Modelled from the spec: \<open>DataSplitter._validate_date_parts\<close>, which is not among the
  sources: "validate requested date parts are members of the supported enumeration -- fail
  fast otherwise", with a validation error that carries the offending name.
\<close>

fun validate_date_parts :: "date_part_arg list \<Rightarrow> error + unit" where
  "validate_date_parts [] = Inr ()"
| "validate_date_parts (Part p # rest) = validate_date_parts rest"
| "validate_date_parts (Name s # rest) =
     (case date_part_of_name s of
        None \<Rightarrow> Inl (InvalidConfigError s)
      | Some p \<Rightarrow> validate_date_parts rest)"

text \<open>
  Modelled from the spec: \<open>DataSplitter._convert_date_parts\<close>, which is not among the
  sources: "normalize date-part identifiers (case-insensitive strings to canonical enum)".
  Constructing the enumeration from a text that names no member raises \<open>ValueError\<close>.
\<close>

fun convert_date_parts :: "date_part_arg list \<Rightarrow> error + DatePart list" where
  "convert_date_parts [] = Inr []"
| "convert_date_parts (Part p # rest) =
     (case convert_date_parts rest of Inl e \<Rightarrow> Inl e | Inr ps \<Rightarrow> Inr (p # ps))"
| "convert_date_parts (Name s # rest) =
     (case date_part_of_name s of
        None \<Rightarrow> Inl (ValueError s)
      | Some p \<Rightarrow> (case convert_date_parts rest of Inl e \<Rightarrow> Inl e | Inr ps \<Rightarrow> Inr (p # ps)))"

text \<open>
  \<open>getattr(value, part)\<close> on a single datetime value: the part of a date, and
  \<open>AttributeError\<close> on a value that is no date.
\<close>

fun date_component :: "DatePart \<Rightarrow> pyval \<Rightarrow> error + pyval" where
  "date_component YEAR (PDate y m d) = Inr (PInt y)"
| "date_component MONTH (PDate y m d) = Inr (PInt m)"
| "date_component DAY (PDate y m d) = Inr (PInt d)"
| "date_component p v = Inl (AttributeError (date_part_value p))"

text \<open>
  Building the dict of target values, one requested date part after the other; \<open>target\<close>
  gives the value of a part or the exception that reading it raises.
\<close>

fun resolve_date_parts ::
  "(DatePart \<Rightarrow> error + pyval) \<Rightarrow> DatePart list \<Rightarrow> pyval dict \<Rightarrow> error + pyval dict" where
  "resolve_date_parts target [] acc = Inr acc"
| "resolve_date_parts target (p # ps) acc =
     (case target p of
        Inl e \<Rightarrow> Inl e
      | Inr v \<Rightarrow> resolve_date_parts target ps (dict_setitem acc (date_part_value p) v))"

text \<open>
  Modelled from the spec: \<open>DataSplitter._convert_datetime_batch_identifiers_to_date_parts_dict\<close>,
  which is not among the sources: "resolve, per requested date part, the target integer
  either from a nested per-part mapping in the batch identifiers or by parsing a single
  datetime value and extracting each part". The parser of datetime text is the parameter
  \<open>parse\<close>.
\<close>

definition convert_datetime_batch_identifiers_to_date_parts_dict ::
  "(string \<Rightarrow> error + pyval) \<Rightarrow> ident \<Rightarrow> DatePart list \<Rightarrow> error + pyval dict" where
  "convert_datetime_batch_identifiers_to_date_parts_dict parse column_batch_identifiers date_parts =
     (case column_batch_identifiers of
        Mapping m \<Rightarrow>
          resolve_date_parts (\<lambda>p. dict_getitem m (date_part_value p)) date_parts []
      | Scalar (PStr s) \<Rightarrow>
          (case parse s of
             Inl e \<Rightarrow> Inl e
           | Inr dt \<Rightarrow> resolve_date_parts (\<lambda>p. date_component p dt) date_parts [])
      | Scalar dt \<Rightarrow> resolve_date_parts (\<lambda>p. date_component p dt) date_parts [])"

text \<open>
  \<open>getattr(series.dt, date_part)()\<close>: the accessor of that name applied to a column. A
  name that is no accessor raises \<open>AttributeError\<close>; a column with a cell that is neither a
  date nor null is not datetime-valued and the library raises. A null cell stays null.
\<close>

definition accessor_of_name :: "string \<Rightarrow> DatePart option" where
  "accessor_of_name a =
     (if a = ''year'' then Some YEAR
      else if a = ''month'' then Some MONTH
      else if a = ''day'' then Some DAY
      else None)"

fun temporal :: "pyval \<Rightarrow> bool" where
  "temporal PNone = True"
| "temporal (PDate y m d) = True"
| "temporal v = False"

fun dt_cell :: "DatePart \<Rightarrow> pyval \<Rightarrow> pyval" where
  "dt_cell YEAR (PDate y m d) = PInt y"
| "dt_cell MONTH (PDate y m d) = PInt m"
| "dt_cell DAY (PDate y m d) = PInt d"
| "dt_cell p v = PNone"

definition dt_accessor :: "string \<Rightarrow> pyval list \<Rightarrow> error + pyval list" where
  "dt_accessor date_part s =
     (case accessor_of_name date_part of
        None \<Rightarrow> Inl (AttributeError date_part)
      | Some p \<Rightarrow> if list_all temporal s then Inr (map (dt_cell p) s) else Inl ComputeError)"

text \<open>
  The loop of \<open>split_on_date_parts\<close> over the items of \<open>date_parts_dict\<close>:
  \<open>df = df[getattr(df[column_name].dt, date_part)() == date_part_value]\<close>.
\<close>

fun date_parts_loop :: "dataframe \<Rightarrow> string \<Rightarrow> pyval dict \<Rightarrow> error + dataframe" where
  "date_parts_loop df column_name [] = Inr df"
| "date_parts_loop df column_name ((date_part, v) # rest) =
     (case get_column df column_name of
        Inl e \<Rightarrow> Inl e
      | Inr s \<Rightarrow>
          (case dt_accessor date_part s of
             Inl e \<Rightarrow> Inl e
           | Inr parts \<Rightarrow>
               date_parts_loop (filter_mask df (series_eq parts (Scalar v))) column_name rest))"

definition split_on_date_parts ::
  "(string \<Rightarrow> error + pyval) \<Rightarrow> dataframe \<Rightarrow> string \<Rightarrow> ident dict \<Rightarrow> date_part_arg list
     \<Rightarrow> error + dataframe" where
  "split_on_date_parts parse df column_name batch_identifiers date_parts =
     (case validate_date_parts date_parts of
        Inl e \<Rightarrow> Inl e
      | Inr u \<Rightarrow>
          (case convert_date_parts date_parts of
             Inl e \<Rightarrow> Inl e
           | Inr parts \<Rightarrow>
               (case dict_getitem batch_identifiers column_name of
                  Inl e \<Rightarrow> Inl e
                | Inr column_batch_identifiers \<Rightarrow>
                    (case convert_datetime_batch_identifiers_to_date_parts_dict parse
                            column_batch_identifiers parts of
                       Inl e \<Rightarrow> Inl e
                     | Inr date_parts_dict \<Rightarrow> date_parts_loop df column_name date_parts_dict))))"

definition split_on_year ::
  "(string \<Rightarrow> error + pyval) \<Rightarrow> dataframe \<Rightarrow> string \<Rightarrow> ident dict \<Rightarrow> error + dataframe" where
  "split_on_year parse df column_name batch_identifiers =
     split_on_date_parts parse df column_name batch_identifiers [Part YEAR]"

definition split_on_year_and_month ::
  "(string \<Rightarrow> error + pyval) \<Rightarrow> dataframe \<Rightarrow> string \<Rightarrow> ident dict \<Rightarrow> error + dataframe" where
  "split_on_year_and_month parse df column_name batch_identifiers =
     split_on_date_parts parse df column_name batch_identifiers [Part YEAR, Part MONTH]"

definition split_on_year_and_month_and_day ::
  "(string \<Rightarrow> error + pyval) \<Rightarrow> dataframe \<Rightarrow> string \<Rightarrow> ident dict \<Rightarrow> error + dataframe" where
  "split_on_year_and_month_and_day parse df column_name batch_identifiers =
     split_on_date_parts parse df column_name batch_identifiers [Part YEAR, Part MONTH, Part DAY]"

text \<open>
  The test that the filters of \<open>date_parts_loop\<close> apply to a row between them: every item
  of the dict names an accessor whose value on the row's cell is the item's value.
\<close>

definition part_matches :: "string \<Rightarrow> pyval dict \<Rightarrow> row \<Rightarrow> bool" where
  "part_matches c dpd r =
     list_all (\<lambda>(k, v). \<exists>p. accessor_of_name k = Some p \<and> dt_cell p (cell r c) = v) dpd"

section \<open>Example data\<close>

text \<open>A column of integers, one of them negative.\<close>

definition example_integers :: dataframe where
  "example_integers =
     \<lparr>columns = [''n''],
      rows = [[(''n'', PInt 5)], [(''n'', PInt 15)], [(''n'', PInt 25)], [(''n'', PInt (- 4))]]\<rparr>"

text \<open>Two rows with a date each, a year apart.\<close>

definition example_dates :: dataframe where
  "example_dates =
     \<lparr>columns = [''id'', ''date''],
      rows = [[(''id'', PInt 1), (''date'', PDate 2021 5 1)],
              [(''id'', PInt 2), (''date'', PDate 2022 5 1)]]\<rparr>"

text \<open>
  A stand-in for the hash library in the examples: its one attribute is \<open>toy\<close>, whose
  digest of a text is the text reversed.
\<close>

definition example_hashlib :: "string \<Rightarrow> hash_method option" where
  "example_hashlib name = (if name = ''toy'' then Some (\<lambda>b. Inr (rev b)) else None)"

definition example_words :: dataframe where
  "example_words = \<lparr>columns = [''w''], rows = [[(''w'', PStr ''ab'')], [(''w'', PStr ''cd'')]]\<rparr>"

section \<open>Masks and filters\<close>

lemma filter_mask_map:
  "filter_mask df (map P (rows df)) = df\<lparr>rows := filter P (rows df)\<rparr>"
proof -
  have "map fst (filter snd (zip xs (map P xs))) = filter P xs" for xs :: "row list"
    by (induction xs) auto
  then show ?thesis by (simp add: filter_mask_def)
qed

lemma filter_mask_series_eq:
  "filter_mask df (series_eq (map g (rows df)) v) =
     df\<lparr>rows := filter (\<lambda>r. py_eq (g r) v) (rows df)\<rparr>"
  using filter_mask_map [of df "\<lambda>r. py_eq (g r) v"] by (simp add: series_eq_def comp_def)

lemma apply_cells_total:
  assumes "\<forall>x\<in>set xs. x \<noteq> PNone \<longrightarrow> f x = Inr (g x)"
  shows "apply_cells f xs = Inr (map (\<lambda>x. x \<noteq> PNone \<and> g x) xs)"
  using assms by (induction xs) auto

lemma series_apply_total:
  assumes "\<exists>x\<in>set xs. x \<noteq> PNone"
    and "\<forall>x\<in>set xs. x \<noteq> PNone \<longrightarrow> f x = Inr (g x)"
  shows "series_apply f xs = Inr (Some (map (\<lambda>x. x \<noteq> PNone \<and> g x) xs))"
  using assms(1) apply_cells_total [OF assms(2)]
  by (auto simp: series_apply_def list_all_iff)

lemma series_apply_first_error:
  assumes "xs \<noteq> []" "\<forall>x\<in>set xs. x \<noteq> PNone \<and> f x = Inl e"
  shows "series_apply f xs = Inl e"
proof -
  have "apply_cells f xs = Inl e" using assms by (cases xs) auto
  moreover have "\<not> list_all (\<lambda>x. x = PNone) xs" using assms by (cases xs) auto
  ultimately show ?thesis by (simp add: series_apply_def)
qed


section \<open>A zero divisor or modulus\<close>

text \<open>
  C1, as stated, fails: with \<open>divisor = 0\<close> on a column holding the integer 5 the call
  lets the \<open>ZeroDivisionError\<close> of the row arithmetic escape, and so does the call with
  \<open>mod = 0\<close>; neither raises an exception of the splitter's own.
\<close>

theorem zero_divisor_counterexample:
  "split_on_divided_integer trunc_quo \<lparr>columns = [''a''], rows = [[(''a'', PInt 5)]]\<rparr> ''a'' 0
       [(''a'', Scalar (PInt 0))] = Inl ZeroDivisionError
   \<and> split_on_mod_integer \<lparr>columns = [''a''], rows = [[(''a'', PInt 5)]]\<rparr> ''a'' 0
       [(''a'', Scalar (PInt 0))] = Inl ZeroDivisionError"
  by (simp add: split_on_divided_integer_def split_on_mod_integer_def dict_getitem_def
      get_column_def cell_def series_apply_def divided_integer_row_def mod_integer_row_def)

text \<open>
  C1, amended: when the identifier of the column is present and the column exists, has at
  least one row and holds integers only, a call with \<open>divisor = 0\<close> (or \<open>mod = 0\<close>) fails
  with the \<open>ZeroDivisionError\<close> of the row arithmetic; no exception of the splitter's own
  is raised.
\<close>

theorem zero_divisor_propagates:
  assumes "map_of batch_identifiers column_name = Some v"
    and "column_name \<in> set (columns df)"
    and "rows df \<noteq> []"
    and "\<forall>r\<in>set (rows df). \<exists>i. cell r column_name = PInt i"
  shows "split_on_divided_integer quo df column_name 0 batch_identifiers = Inl ZeroDivisionError
       \<and> split_on_mod_integer df column_name 0 batch_identifiers = Inl ZeroDivisionError"
proof -
  have d: "series_apply (divided_integer_row quo 0 v) (map (\<lambda>r. cell r column_name) (rows df))
             = Inl ZeroDivisionError"
    using assms(3,4)
    by (intro series_apply_first_error) (auto simp: divided_integer_row_def)
  have m: "series_apply (mod_integer_row 0 v) (map (\<lambda>r. cell r column_name) (rows df))
             = Inl ZeroDivisionError"
    using assms(3,4)
    by (intro series_apply_first_error) (auto simp: mod_integer_row_def)
  show ?thesis using assms(1,2) d m
    by (simp add: split_on_divided_integer_def split_on_mod_integer_def dict_getitem_def
        get_column_def)
qed

theorem zero_divisor_propagates_witness:
  "split_on_divided_integer trunc_quo
       \<lparr>columns = [''n''], rows = [[(''n'', PInt 7)], [(''n'', PInt 12)]]\<rparr> ''n'' 0
       [(''n'', Scalar (PInt 1))] = Inl ZeroDivisionError
   \<and> split_on_mod_integer
       \<lparr>columns = [''n''], rows = [[(''n'', PInt 7)], [(''n'', PInt 12)]]\<rparr> ''n'' 0
       [(''n'', Scalar (PInt 1))] = Inl ZeroDivisionError"
  using zero_divisor_propagates [of "[(''n'', Scalar (PInt 1))]" "''n''" "Scalar (PInt 1)"
      "\<lparr>columns = [''n''], rows = [[(''n'', PInt 7)], [(''n'', PInt 12)]]\<rparr>" trunc_quo]
  by (simp add: cell_def)

section \<open>Partition by modulus and by quotient\<close>




section \<open>A value that matches no cell\<close>

text \<open>
  C8: when the column exists and its identifier is present, \<open>split_on_column_value\<close>
  returns a dataframe and raises nothing; and when the identifier's value has a type that
  no cell of the column has, the dataframe it returns has no rows.
\<close>

theorem column_value_mismatch_empty:
  assumes "column_name \<in> set (columns df)"
    and "map_of batch_identifiers column_name = Some v"
  shows "(\<exists>d. split_on_column_value df column_name batch_identifiers = Inr d)
       \<and> ((\<forall>r\<in>set (rows df). py_type (cell r column_name) \<noteq> ident_type v) \<longrightarrow>
            split_on_column_value df column_name batch_identifiers = Inr (df\<lparr>rows := []\<rparr>))"
proof -
  have eq: "split_on_column_value df column_name batch_identifiers =
      Inr (df\<lparr>rows := filter (\<lambda>r. py_eq (cell r column_name) v) (rows df)\<rparr>)"
    using assms
    by (simp add: split_on_column_value_def get_column_def dict_getitem_def
        filter_mask_series_eq)
  have "filter (\<lambda>r. py_eq (cell r column_name) v) (rows df) = []"
    if "\<forall>r\<in>set (rows df). py_type (cell r column_name) \<noteq> ident_type v"
    using that by (cases v) (auto simp: filter_empty_conv py_eq_def)
  with eq show ?thesis by simp
qed

theorem column_value_mismatch_empty_witness:
  "split_on_column_value example_integers ''n'' [(''n'', Scalar (PStr ''5''))]
     = Inr \<lparr>columns = [''n''], rows = []\<rparr>"
  using column_value_mismatch_empty
          [of "''n''" example_integers "[(''n'', Scalar (PStr ''5''))]" "Scalar (PStr ''5'')"]
  by (simp add: example_integers_def cell_def)

section \<open>A missing identifier in a multi-column split\<close>

text \<open>
  C2, as stated, fails: the check of a column runs inside the loop, after the filters of
  the columns named before it. With columns \<open>a, b\<close> named, \<open>b\<close> missing from the
  identifiers and \<open>a\<close> no column of the dataframe, the filter on \<open>a\<close> is attempted first
  and its error escapes; no error naming \<open>b\<close> is raised.
\<close>

theorem multi_column_check_counterexample:
  "split_on_multi_column_values \<lparr>columns = [''b''], rows = [[(''b'', PInt 1)]]\<rparr>
      [''a'', ''b''] [(''a'', Scalar (PInt 1))] = Inl (ColumnNotFoundError ''a'')"
  by (simp add: split_on_multi_column_values_def dict_get_def get_column_def)

text \<open>
  C2, amended: if a named column is missing from the batch identifiers or mapped to a
  falsy value, and every column named before it has a truthy identifier and is a column of
  the dataframe, then \<open>split_on_multi_column_values\<close> raises a \<open>ValueError\<close> whose message
  names that column. The check of a column precedes that column's own filter, not the
  filters of the columns named before it.
\<close>

theorem multi_column_missing_identifier:
  assumes "\<forall>c\<in>set pre. c \<in> set (columns df) \<and> (\<exists>v. dict_get batch_identifiers c = Some v \<and> truthy v)"
    and "\<forall>v. dict_get batch_identifiers column_name = Some v \<longrightarrow> \<not> truthy v"
  shows "split_on_multi_column_values df (pre @ column_name # post) batch_identifiers
           = Inl (ValueError (not_found_message column_name))
       \<and> (\<exists>a b. not_found_message column_name = a @ column_name @ b)"
proof -
  have "multi_column_loop df (pre @ column_name # post) batch_identifiers
          = Inl (ValueError (not_found_message column_name))"
    using assms
  proof (induction pre arbitrary: df)
    case Nil
    then show ?case by (auto split: option.splits)
  next
    case (Cons a pre)
    then show ?case by (auto simp: get_column_def filter_mask_def split: option.splits)
  qed
  moreover have "\<exists>a b. not_found_message column_name = a @ column_name @ b"
    unfolding not_found_message_def by (metis append.assoc)
  ultimately show ?thesis by (simp add: split_on_multi_column_values_def)
qed

theorem multi_column_missing_identifier_witness:
  "split_on_multi_column_values example_integers [''n'', ''x'', ''y'']
      [(''n'', Scalar (PInt 5)), (''x'', Scalar (PInt 0))]
     = Inl (ValueError (not_found_message ''x''))"
  using multi_column_missing_identifier
          [of "[''n'']" example_integers "[(''n'', Scalar (PInt 5)), (''x'', Scalar (PInt 0))]"
              "''x''" "[''y'']"]
  by (simp add: example_integers_def dict_get_def)

section \<open>An unknown hash function\<close>

text \<open>
  C3: when \<open>hash_function_name\<close> is no attribute of the hash library,
  \<open>split_on_hashed_column\<close> raises \<open>ExecutionEngineError\<close> with a message that contains the
  name, whatever the dataframe, the column, the digits and the identifiers are: no row is
  hashed and no \<open>AttributeError\<close> escapes.
\<close>

theorem unknown_hash_function_raises:
  assumes "hashlib hash_function_name = None"
  shows "split_on_hashed_column hashlib df column_name hash_digits batch_identifiers
             hash_function_name
           = Inl (ExecutionEngineError (invalid_hash_message hash_function_name))
       \<and> (\<exists>a b. invalid_hash_message hash_function_name = a @ hash_function_name @ b)"
proof -
  have "\<exists>a b. invalid_hash_message hash_function_name = a @ hash_function_name @ b"
    unfolding invalid_hash_message_def by (metis append.assoc)
  then show ?thesis using assms by (simp add: split_on_hashed_column_def)
qed

theorem unknown_hash_function_raises_witness:
  "split_on_hashed_column example_hashlib example_words ''w'' 2 [] ''md6''
     = Inl (ExecutionEngineError (invalid_hash_message ''md6''))"
  using unknown_hash_function_raises [of example_hashlib "''md6''" example_words "''w''" 2 "[]"]
  by (simp add: example_hashlib_def)

section \<open>Zero hash digits\<close>

text \<open>
  C10: with \<open>hash_digits = 0\<close> the slice \<open>[-0:]\<close> is the whole digest. When the hash method
  digests every text (\<open>hexdigest\<close> names its result) and the column has a cell that is not
  null, \<open>split_on_hashed_column\<close> keeps exactly the rows whose cell is not null and whose
  entire digest of the cell's text equals the identifier's \<open>hash_value\<close>; in particular
  an empty \<open>hash_value\<close> does not match every row.
\<close>

theorem hash_digits_zero_compares_whole_digest:
  assumes "hashlib hash_function_name = Some hash_method"
    and "\<forall>b. hash_method b = Inr (hexdigest b)"
    and "column_name \<in> set (columns df)"
    and "map_of batch_identifiers ''hash_value'' = Some v"
    and "\<exists>r\<in>set (rows df). cell r column_name \<noteq> PNone"
  shows "split_on_hashed_column hashlib df column_name 0 batch_identifiers hash_function_name =
     Inr (df\<lparr>rows := filter (\<lambda>r. cell r column_name \<noteq> PNone \<and>
                 v = Scalar (PStr (hexdigest (py_str (cell r column_name))))) (rows df)\<rparr>)"
proof -
  let ?g = "\<lambda>x. v = Scalar (PStr (hexdigest (py_str x)))"
  let ?s = "map (\<lambda>r. cell r column_name) (rows df)"
  have ne: "\<exists>x\<in>set ?s. x \<noteq> PNone" using assms(5) by auto
  have "\<forall>x\<in>set ?s. x \<noteq> PNone \<longrightarrow>
        hashed_column_row hash_method 0 batch_identifiers x = Inr (?g x)"
    using assms(2,4)
    by (auto simp: hashed_column_row_def dict_getitem_def slice_from_def py_eq_def
        split: ident.splits)
  from series_apply_total [OF ne this]
  have "series_apply (hashed_column_row hash_method 0 batch_identifiers) ?s
      = Inr (Some (map (\<lambda>r. cell r column_name \<noteq> PNone \<and> ?g (cell r column_name)) (rows df)))"
    by (simp add: comp_def)
  then show ?thesis using assms(1,3)
    by (simp add: split_on_hashed_column_def get_column_def getitem_mask_def filter_mask_map)
qed

theorem hash_digits_zero_compares_whole_digest_witness:
  "split_on_hashed_column example_hashlib example_words ''w'' 0
       [(''hash_value'', Scalar (PStr ''ba''))] ''toy''
     = Inr \<lparr>columns = [''w''], rows = [[(''w'', PStr ''ab'')]]\<rparr>
   \<and> split_on_hashed_column example_hashlib example_words ''w'' 0
       [(''hash_value'', Scalar (PStr []))] ''toy''
     = Inr \<lparr>columns = [''w''], rows = []\<rparr>
   \<and> split_on_hashed_column example_hashlib example_integers ''n'' 0
       [(''hash_value'', Scalar (PStr ''51''))] ''toy''
     = Inr \<lparr>columns = [''n''], rows = [[(''n'', PInt 15)]]\<rparr>
   \<and> split_on_hashed_column example_hashlib example_integers ''n'' 0
       [(''hash_value'', Scalar (PStr ''4-''))] ''toy''
     = Inr \<lparr>columns = [''n''], rows = [[(''n'', PInt (- 4))]]\<rparr>
   \<and> split_on_hashed_column example_hashlib example_dates ''date'' 0
       [(''hash_value'', Scalar (PStr ''10-50-1202''))] ''toy''
     = Inr \<lparr>columns = [''id'', ''date''],
            rows = [[(''id'', PInt 1), (''date'', PDate 2021 5 1)]]\<rparr>"
proof -
  have s: "py_str (PInt 5) = ''5''" "py_str (PInt 15) = ''15''" "py_str (PInt 25) = ''25''"
    "py_str (PInt (- 4)) = ''-4''" "py_str (PDate 2021 5 1) = ''2021-05-01''"
    "py_str (PDate 2022 5 1) = ''2022-05-01''" "py_str (PStr ''ab'') = ''ab''"
    "py_str (PStr ''cd'') = ''cd''"
    by code_simp+
  note t = hash_digits_zero_compares_whole_digest
             [of example_hashlib "''toy''" "\<lambda>b. Inr (rev b)" rev]
  show ?thesis
    using t [of "''w''" example_words "[(''hash_value'', Scalar (PStr ''ba''))]"
               "Scalar (PStr ''ba'')"]
          t [of "''w''" example_words "[(''hash_value'', Scalar (PStr []))]"
               "Scalar (PStr [])"]
          t [of "''n''" example_integers "[(''hash_value'', Scalar (PStr ''51''))]"
               "Scalar (PStr ''51'')"]
          t [of "''n''" example_integers "[(''hash_value'', Scalar (PStr ''4-''))]"
               "Scalar (PStr ''4-'')"]
          t [of "''date''" example_dates "[(''hash_value'', Scalar (PStr ''10-50-1202''))]"
               "Scalar (PStr ''10-50-1202'')"]
    by (simp add: example_hashlib_def example_words_def example_integers_def example_dates_def
        cell_def s del: py_str.simps)
qed

section \<open>Date parts: validation, conversion and resolution\<close>

lemma convert_imp_validate:
  "convert_date_parts ps = Inr qs \<Longrightarrow> validate_date_parts ps = Inr ()"
  by (induction ps arbitrary: qs rule: convert_date_parts.induct)
     (auto split: sum.splits option.splits)

lemma convert_Part: "convert_date_parts (map Part qs) = Inr qs"
  by (induction qs) auto

lemma validate_Part: "validate_date_parts (map Part qs) = Inr ()"
  by (induction qs) auto

lemma validate_invalid:
  "Name s \<in> set ps \<Longrightarrow> date_part_of_name s = None \<Longrightarrow>
   \<exists>bad. validate_date_parts ps = Inl (InvalidConfigError bad) \<and> Name bad \<in> set ps \<and>
         date_part_of_name bad = None"
  by (induction ps rule: validate_date_parts.induct) (auto split: option.splits)

lemma accessor_value [simp]: "accessor_of_name (date_part_value p) = Some p"
  by (cases p) (simp_all add: accessor_of_name_def)

lemma value_inj: "date_part_value p = date_part_value q \<longleftrightarrow> p = q"
  by (cases p; cases q) simp_all

lemma dict_setitem_map_of: "map_of (dict_setitem d k v) = (map_of d)(k \<mapsto> v)"
  by (induction d) (auto simp: fun_eq_iff)

lemma dict_setitem_keys: "fst ` set (dict_setitem d k v) = insert k (fst ` set d)"
proof (induction d)
  case Nil
  then show ?case by simp
next
  case (Cons kv d)
  obtain k' v' where kv: "kv = (k', v')" by (cases kv)
  show ?case using Cons by (cases "k' = k") (auto simp: kv)
qed

lemma dict_setitem_distinct:
  "distinct (map fst d) \<Longrightarrow> distinct (map fst (dict_setitem d k v))"
proof (induction d)
  case Nil
  then show ?case by simp
next
  case (Cons kv d)
  obtain k' v' where kv: "kv = (k', v')" by (cases kv)
  show ?case using Cons dict_setitem_keys [of d k v] by (cases "k' = k") (auto simp: kv)
qed

lemma resolve_targets:
  "resolve_date_parts tg ps acc = Inr dpd \<Longrightarrow> p \<in> set ps \<Longrightarrow> \<exists>v. tg p = Inr v"
  by (induction ps arbitrary: acc) (auto split: sum.splits)

lemma resolve_map_of:
  assumes "resolve_date_parts tg ps acc = Inr dpd" "distinct (map fst acc)"
  shows "distinct (map fst dpd) \<and>
    (\<forall>k v. map_of dpd k = Some v \<longleftrightarrow>
       (if k \<in> date_part_value ` set ps
        then (\<exists>p\<in>set ps. date_part_value p = k \<and> tg p = Inr v)
        else map_of acc k = Some v))"
  using assms
proof (induction ps arbitrary: acc)
  case Nil
  then show ?case by simp
next
  case (Cons p ps)
  from Cons.prems obtain v0 where v0: "tg p = Inr v0"
    and r: "resolve_date_parts tg ps (dict_setitem acc (date_part_value p) v0) = Inr dpd"
    by (auto split: sum.splits)
  note IH = Cons.IH [OF r dict_setitem_distinct [OF Cons.prems(2)]]
  show ?case
  proof (intro conjI allI)
    show "distinct (map fst dpd)" using IH by simp
  next
    fix k v
    show "map_of dpd k = Some v \<longleftrightarrow>
       (if k \<in> date_part_value ` set (p # ps)
        then (\<exists>p'\<in>set (p # ps). date_part_value p' = k \<and> tg p' = Inr v)
        else map_of acc k = Some v)"
    proof (cases "k \<in> date_part_value ` set ps")
      case True
      then show ?thesis using IH v0 by (auto simp: value_inj)
    next
      case False
      then show ?thesis using IH v0 by (auto simp: dict_setitem_map_of value_inj)
    qed
  qed
qed

lemma resolve_part_matches:
  assumes "resolve_date_parts tg ps [] = Inr dpd"
  shows "part_matches c dpd r \<longleftrightarrow> (\<forall>p\<in>set ps. tg p = Inr (dt_cell p (cell r c)))"
proof -
  from resolve_map_of [OF assms] have d: "distinct (map fst dpd)"
    and m: "\<And>k v. map_of dpd k = Some v \<longleftrightarrow>
                   (\<exists>p\<in>set ps. date_part_value p = k \<and> tg p = Inr v)"
    by auto
  have mem: "(k, v) \<in> set dpd \<longleftrightarrow> (\<exists>p\<in>set ps. date_part_value p = k \<and> tg p = Inr v)"
    for k v
    using d m by (metis map_of_eq_Some_iff)
  show ?thesis
  proof
    assume pm: "part_matches c dpd r"
    show "\<forall>p\<in>set ps. tg p = Inr (dt_cell p (cell r c))"
    proof
      fix p assume p: "p \<in> set ps"
      from resolve_targets [OF assms p] obtain v where v: "tg p = Inr v" ..
      with p have "(date_part_value p, v) \<in> set dpd" using mem by blast
      with pm have "dt_cell p (cell r c) = v"
        by (auto simp: part_matches_def list_all_iff)
      with v show "tg p = Inr (dt_cell p (cell r c))" by simp
    qed
  next
    assume a: "\<forall>p\<in>set ps. tg p = Inr (dt_cell p (cell r c))"
    have "\<exists>p. accessor_of_name k = Some p \<and> dt_cell p (cell r c) = v"
      if "(k, v) \<in> set dpd" for k v
    proof -
      from that obtain p where p: "p \<in> set ps" "date_part_value p = k" "tg p = Inr v"
        using mem by blast
      with a have "dt_cell p (cell r c) = v" by auto
      with p show ?thesis by auto
    qed
    then show "part_matches c dpd r"
      by (auto simp: part_matches_def list_all_iff)
  qed
qed

section \<open>Date parts: the filtering loop\<close>

lemma date_parts_loop_iff:
  "date_parts_loop df c dpd = Inr d \<longleftrightarrow>
     (if dpd = [] then d = df
      else c \<in> set (columns df) \<and> list_all temporal (map (\<lambda>r. cell r c) (rows df)) \<and>
           list_all (\<lambda>(k, v). accessor_of_name k \<noteq> None) dpd \<and>
           d = df\<lparr>rows := filter (part_matches c dpd) (rows df)\<rparr>)"
proof (induction dpd arbitrary: df)
  case Nil
  then show ?case by auto
next
  case (Cons kv dpd)
  obtain k v where kv: "kv = (k, v)" by (cases kv)
  show ?case
  proof (cases "c \<in> set (columns df) \<and> list_all temporal (map (\<lambda>r. cell r c) (rows df)) \<and>
                accessor_of_name k \<noteq> None")
    case False
    then show ?thesis
      by (auto simp: kv get_column_def dt_accessor_def split: option.splits)
  next
    case True
    then obtain p where p: "accessor_of_name k = Some p" by auto
    let ?df' = "df\<lparr>rows := filter (\<lambda>r. dt_cell p (cell r c) = v) (rows df)\<rparr>"
    have step: "date_parts_loop df c (kv # dpd) = date_parts_loop ?df' c dpd"
      using True p filter_mask_series_eq [of df "\<lambda>r. dt_cell p (cell r c)" "Scalar v"]
      by (simp add: kv get_column_def dt_accessor_def comp_def py_eq_def)
    have t': "list_all temporal (map (\<lambda>r. cell r c) (rows ?df'))"
      using True by (auto simp: list_all_iff)
    have f: "filter (part_matches c dpd) (rows ?df') = filter (part_matches c (kv # dpd)) (rows df)"
      using p by (auto simp: part_matches_def kv intro: filter_cong)
    show ?thesis
      unfolding step Cons.IH [of ?df']
      using True p t' f by (auto simp: kv part_matches_def)
  qed
qed

lemma date_parts_loop_rows:
  assumes "date_parts_loop df c dpd = Inr d"
  shows "rows d = filter (part_matches c dpd) (rows df)"
  using assms by (cases "dpd = []") (auto simp: date_parts_loop_iff part_matches_def)

lemma date_parts_loop_set:
  assumes "set dpd = set dpd'"
  shows "(date_parts_loop df c dpd = Inr d) = (date_parts_loop df c dpd' = Inr d)"
proof -
  have e: "dpd = [] \<longleftrightarrow> dpd' = []" using assms by (metis set_empty)
  have "part_matches c dpd = part_matches c dpd'"
    using assms by (auto simp: part_matches_def list_all_iff fun_eq_iff)
  moreover have "list_all (\<lambda>(k, v). accessor_of_name k \<noteq> None) dpd =
                 list_all (\<lambda>(k, v). accessor_of_name k \<noteq> None) dpd'"
    using assms by (auto simp: list_all_iff)
  ultimately show ?thesis using e by (simp add: date_parts_loop_iff)
qed

lemma split_on_date_parts_Inr:
  assumes "split_on_date_parts parse df c bi date_parts = Inr d"
  obtains ps cbi dpd where
    "convert_date_parts date_parts = Inr ps"
    "dict_getitem bi c = Inr cbi"
    "convert_datetime_batch_identifiers_to_date_parts_dict parse cbi ps = Inr dpd"
    "date_parts_loop df c dpd = Inr d"
  using assms by (auto simp: split_on_date_parts_def split: sum.splits)

section \<open>The date-part entry points\<close>

text \<open>
  C9: \<open>split_on_year\<close>, \<open>split_on_year_and_month\<close> and \<open>split_on_year_and_month_and_day\<close>
  are \<open>split_on_date_parts\<close> with the date parts \<open>[YEAR]\<close>, \<open>[YEAR, MONTH]\<close> and
  \<open>[YEAR, MONTH, DAY]\<close>, on every dataframe, column and batch identifiers.
\<close>

theorem convenience_splitters_refine_date_parts:
  "split_on_year parse df column_name batch_identifiers
     = split_on_date_parts parse df column_name batch_identifiers [Part YEAR]
   \<and> split_on_year_and_month parse df column_name batch_identifiers
     = split_on_date_parts parse df column_name batch_identifiers [Part YEAR, Part MONTH]
   \<and> split_on_year_and_month_and_day parse df column_name batch_identifiers
     = split_on_date_parts parse df column_name batch_identifiers
         [Part YEAR, Part MONTH, Part DAY]"
  by (simp add: split_on_year_def split_on_year_and_month_def
      split_on_year_and_month_and_day_def)

theorem convenience_splitters_refine_date_parts_witness:
  "split_on_year (\<lambda>s. Inl (ValueError s)) example_dates ''date''
       [(''date'', Scalar (PDate 2022 7 9))]
     = Inr \<lparr>columns = [''id'', ''date''],
            rows = [[(''id'', PInt 2), (''date'', PDate 2022 5 1)]]\<rparr>
   \<and> split_on_year_and_month (\<lambda>s. Inl (ValueError s)) example_dates ''date''
       [(''date'', Scalar (PDate 2022 7 9))]
     = Inr \<lparr>columns = [''id'', ''date''], rows = []\<rparr>
   \<and> split_on_year_and_month_and_day (\<lambda>s. Inl (ValueError s)) example_dates ''date''
       [(''date'', Scalar (PDate 2021 5 1))]
     = Inr \<lparr>columns = [''id'', ''date''],
            rows = [[(''id'', PInt 1), (''date'', PDate 2021 5 1)]]\<rparr>"
  using convenience_splitters_refine_date_parts
          [of "\<lambda>s. Inl (ValueError s)" example_dates "''date''"
              "[(''date'', Scalar (PDate 2022 7 9))]"]
        convenience_splitters_refine_date_parts
          [of "\<lambda>s. Inl (ValueError s)" example_dates "''date''"
              "[(''date'', Scalar (PDate 2021 5 1))]"]
  by (simp add: split_on_date_parts_def dict_getitem_def
      convert_datetime_batch_identifiers_to_date_parts_dict_def example_dates_def
      get_column_def cell_def dt_accessor_def accessor_of_name_def series_eq_def py_eq_def
      filter_mask_def)

section \<open>Invalid date parts\<close>

lemma convert_members:
  "convert_date_parts date_parts = Inr ps \<Longrightarrow>
   list_all2 (\<lambda>a p. a = Part p \<or> (\<exists>s. a = Name s \<and> date_part_of_name s = Some p))
     date_parts ps"
  by (induction date_parts arbitrary: ps rule: convert_date_parts.induct)
     (auto split: sum.splits option.splits)

lemma resolve_total:
  "\<forall>p\<in>set ps. \<exists>v. tg p = Inr v \<Longrightarrow> \<exists>dpd. resolve_date_parts tg ps acc = Inr dpd"
  by (induction ps arbitrary: acc) auto

lemma resolve_keys:
  "resolve_date_parts tg ps acc = Inr dpd \<Longrightarrow>
   fst ` set dpd = fst ` set acc \<union> date_part_value ` set ps"
proof (induction ps arbitrary: acc)
  case Nil
  then show ?case by simp
next
  case (Cons p ps)
  from Cons.prems obtain v0 where
    r: "resolve_date_parts tg ps (dict_setitem acc (date_part_value p) v0) = Inr dpd"
    by (auto split: sum.splits)
  show ?case using Cons.IH [OF r] dict_setitem_keys [of acc "date_part_value p" v0] by auto
qed

lemma date_component_date:
  "date_component p (PDate y mo dd) = Inr (dt_cell p (PDate y mo dd))"
  by (cases p) simp_all

lemma split_on_date_parts_by_date:
  assumes cv: "convert_date_parts date_parts = Inr ps"
    and bi: "map_of batch_identifiers column_name = Some (Scalar (PDate y mo dd))"
    and col: "column_name \<in> set (columns df)"
    and tmp: "list_all temporal (map (\<lambda>r. cell r column_name) (rows df))"
  shows "split_on_date_parts parse df column_name batch_identifiers date_parts =
     Inr (df\<lparr>rows := filter (\<lambda>r. \<forall>p\<in>set ps. dt_cell p (cell r column_name)
                                   = dt_cell p (PDate y mo dd)) (rows df)\<rparr>)"
proof -
  let ?tg = "\<lambda>p. date_component p (PDate y mo dd)"
  from resolve_total [of ps ?tg "[]"] obtain dpd where
    r: "resolve_date_parts ?tg ps [] = Inr dpd"
    by (auto simp: date_component_date)
  have "accessor_of_name (fst x) \<noteq> None" if "x \<in> set dpd" for x
  proof -
    from that have "fst x \<in> fst ` set dpd" by simp
    with resolve_keys [OF r] obtain p where "fst x = date_part_value p" by auto
    then show ?thesis by simp
  qed
  then have keys: "list_all (\<lambda>(k, v). accessor_of_name k \<noteq> None) dpd"
    by (auto simp: list_all_iff)
  have pm: "part_matches column_name dpd =
        (\<lambda>r. \<forall>p\<in>set ps. dt_cell p (cell r column_name) = dt_cell p (PDate y mo dd))"
    unfolding resolve_part_matches [OF r] fun_eq_iff by (auto simp: date_component_date)
  have "date_parts_loop df column_name dpd =
          Inr (df\<lparr>rows := filter (part_matches column_name dpd) (rows df)\<rparr>)"
    using col tmp keys by (cases "dpd = []") (auto simp: date_parts_loop_iff part_matches_def)
  then show ?thesis
    using cv convert_imp_validate [OF cv] bi r pm
    by (simp add: split_on_date_parts_def dict_getitem_def
        convert_datetime_batch_identifiers_to_date_parts_dict_def)
qed

text \<open>
  C4: when \<open>date_parts\<close> holds a text that names no member of the enumeration (compared
  without regard to case), \<open>split_on_date_parts\<close> raises the validation error, naming such a
  text, whatever the dataframe, the column and the identifiers are, so before any row is
  examined. When every requested date part is valid, each text is converted to the
  member it names without regard to case, the call is the call with these members, and
  the rows are filtered on these members: with a date as the identifier of an existing
  datetime-valued column, the call returns exactly the rows whose cell agrees with that
  date in every converted member.
\<close>

theorem invalid_date_part_fails_fast:
  "(Name s \<in> set date_parts \<and> date_part_of_name s = None \<longrightarrow>
      (\<exists>bad. Name bad \<in> set date_parts \<and> date_part_of_name bad = None \<and>
         (\<forall>parse df column_name batch_identifiers.
            split_on_date_parts parse df column_name batch_identifiers date_parts
              = Inl (InvalidConfigError bad))))
   \<and> (convert_date_parts date_parts = Inr ps \<longrightarrow>
        list_all2 (\<lambda>a p. a = Part p \<or> (\<exists>s. a = Name s \<and> date_part_of_name s = Some p))
          date_parts ps
      \<and> (\<forall>parse df column_name batch_identifiers.
           split_on_date_parts parse df column_name batch_identifiers date_parts
             = split_on_date_parts parse df column_name batch_identifiers (map Part ps))
      \<and> (\<forall>parse df column_name batch_identifiers y mo dd.
           map_of batch_identifiers column_name = Some (Scalar (PDate y mo dd)) \<and>
           column_name \<in> set (columns df) \<and>
           list_all temporal (map (\<lambda>r. cell r column_name) (rows df)) \<longrightarrow>
           split_on_date_parts parse df column_name batch_identifiers date_parts
             = Inr (df\<lparr>rows := filter (\<lambda>r. \<forall>p\<in>set ps. dt_cell p (cell r column_name)
                                            = dt_cell p (PDate y mo dd)) (rows df)\<rparr>)))"
proof (intro conjI impI)
  assume "Name s \<in> set date_parts \<and> date_part_of_name s = None"
  then obtain bad where "validate_date_parts date_parts = Inl (InvalidConfigError bad)"
    and "Name bad \<in> set date_parts" and "date_part_of_name bad = None"
    using validate_invalid by blast
  then show "\<exists>bad. Name bad \<in> set date_parts \<and> date_part_of_name bad = None \<and>
         (\<forall>parse df column_name batch_identifiers.
            split_on_date_parts parse df column_name batch_identifiers date_parts
              = Inl (InvalidConfigError bad))"
    by (intro exI [of _ bad]) (simp add: split_on_date_parts_def)
next
  assume c: "convert_date_parts date_parts = Inr ps"
  then show "list_all2 (\<lambda>a p. a = Part p \<or> (\<exists>s. a = Name s \<and> date_part_of_name s = Some p))
          date_parts ps"
    by (rule convert_members)
next
  assume c: "convert_date_parts date_parts = Inr ps"
  show "\<forall>parse df column_name batch_identifiers.
         split_on_date_parts parse df column_name batch_identifiers date_parts
           = split_on_date_parts parse df column_name batch_identifiers (map Part ps)"
    using c convert_imp_validate [OF c]
    by (simp add: split_on_date_parts_def convert_Part validate_Part)
next
  assume c: "convert_date_parts date_parts = Inr ps"
  show "\<forall>parse df column_name batch_identifiers y mo dd.
           map_of batch_identifiers column_name = Some (Scalar (PDate y mo dd)) \<and>
           column_name \<in> set (columns df) \<and>
           list_all temporal (map (\<lambda>r. cell r column_name) (rows df)) \<longrightarrow>
           split_on_date_parts parse df column_name batch_identifiers date_parts
             = Inr (df\<lparr>rows := filter (\<lambda>r. \<forall>p\<in>set ps. dt_cell p (cell r column_name)
                                            = dt_cell p (PDate y mo dd)) (rows df)\<rparr>)"
    using split_on_date_parts_by_date [OF c] by blast
qed

theorem invalid_date_part_fails_fast_witness:
  "split_on_date_parts (\<lambda>s. Inl (ValueError s)) example_dates ''date'' []
       [Name ''Year'', Name ''fortnight''] = Inl (InvalidConfigError ''fortnight'')
   \<and> convert_date_parts [Name ''Year'', Name ''MONTH''] = Inr [YEAR, MONTH]
   \<and> split_on_date_parts (\<lambda>s. Inl (ValueError s)) example_dates ''date''
       [(''date'', Scalar (PDate 2021 5 17))] [Name ''Year'', Name ''MONTH'']
     = split_on_date_parts (\<lambda>s. Inl (ValueError s)) example_dates ''date''
       [(''date'', Scalar (PDate 2021 5 17))] [Part YEAR, Part MONTH]
   \<and> split_on_date_parts (\<lambda>s. Inl (ValueError s)) example_dates ''date''
       [(''date'', Scalar (PDate 2021 5 17))] [Name ''Year'', Name ''MONTH'']
     = Inr \<lparr>columns = [''id'', ''date''],
            rows = [[(''id'', PInt 1), (''date'', PDate 2021 5 1)]]\<rparr>"
proof -
  have y: "date_part_of_name ''Year'' = Some YEAR" by code_simp
  have m: "date_part_of_name ''MONTH'' = Some MONTH" by code_simp
  have f: "date_part_of_name ''fortnight'' = None" by code_simp
  have c: "convert_date_parts [Name ''Year'', Name ''MONTH''] = Inr [YEAR, MONTH]"
    by (simp add: y m)
  have "\<exists>bad. Name bad \<in> set [Name ''Year'', Name ''fortnight''] \<and>
          date_part_of_name bad = None \<and>
          (\<forall>parse df column_name batch_identifiers.
             split_on_date_parts parse df column_name batch_identifiers
               [Name ''Year'', Name ''fortnight''] = Inl (InvalidConfigError bad))"
    using invalid_date_part_fails_fast
            [of "''fortnight''" "[Name ''Year'', Name ''fortnight'']" "[]"] f
    by simp
  then obtain bad where b: "Name bad \<in> set [Name ''Year'', Name ''fortnight'']"
      "date_part_of_name bad = None"
    and r: "\<And>parse df column_name batch_identifiers.
       split_on_date_parts parse df column_name batch_identifiers
         [Name ''Year'', Name ''fortnight''] = Inl (InvalidConfigError bad)"
    by blast
  from b y have bad: "bad = ''fortnight''" by auto
  note t = invalid_date_part_fails_fast
             [of "''fortnight''" "[Name ''Year'', Name ''MONTH'']" "[YEAR, MONTH]"]
  have e: "\<forall>parse df column_name batch_identifiers.
         split_on_date_parts parse df column_name batch_identifiers
           [Name ''Year'', Name ''MONTH'']
       = split_on_date_parts parse df column_name batch_identifiers
           (map Part [YEAR, MONTH])"
    using t c by blast
  have t3: "\<forall>parse df column_name batch_identifiers y mo dd.
           map_of batch_identifiers column_name = Some (Scalar (PDate y mo dd)) \<and>
           column_name \<in> set (columns df) \<and>
           list_all temporal (map (\<lambda>r. cell r column_name) (rows df)) \<longrightarrow>
           split_on_date_parts parse df column_name batch_identifiers
               [Name ''Year'', Name ''MONTH'']
             = Inr (df\<lparr>rows := filter (\<lambda>r. \<forall>p\<in>set [YEAR, MONTH].
                      dt_cell p (cell r column_name) = dt_cell p (PDate y mo dd)) (rows df)\<rparr>)"
    using t c by blast
  have h: "map_of [(''date'', Scalar (PDate 2021 5 17))] ''date''
             = Some (Scalar (PDate 2021 5 17)) \<and>
           ''date'' \<in> set (columns example_dates) \<and>
           list_all temporal (map (\<lambda>r. cell r ''date'') (rows example_dates))"
    by (simp add: example_dates_def cell_def)
  have "split_on_date_parts (\<lambda>s. Inl (ValueError s)) example_dates ''date''
       [(''date'', Scalar (PDate 2021 5 17))] [Name ''Year'', Name ''MONTH'']
     = Inr (example_dates\<lparr>rows := filter (\<lambda>r. \<forall>p\<in>set [YEAR, MONTH].
              dt_cell p (cell r ''date'') = dt_cell p (PDate 2021 5 17)) (rows example_dates)\<rparr>)"
    using t3 [rule_format, OF h] .
  then have g: "split_on_date_parts (\<lambda>s. Inl (ValueError s)) example_dates ''date''
       [(''date'', Scalar (PDate 2021 5 17))] [Name ''Year'', Name ''MONTH'']
     = Inr \<lparr>columns = [''id'', ''date''],
            rows = [[(''id'', PInt 1), (''date'', PDate 2021 5 1)]]\<rparr>"
    by (simp add: example_dates_def cell_def)
  show ?thesis using r bad c e g by simp
qed

section \<open>Date parts are matched together\<close>

text \<open>
  C6: on the rows \<open>{id: 1, date: 2021-05-01}\<close> and \<open>{id: 2, date: 2022-05-01}\<close>,
  \<open>split_on_year_and_month\<close> with the identifiers \<open>{date: {year: 2021, month: 5}}\<close> returns
  exactly the row with \<open>id = 1\<close>. In general the rows that \<open>split_on_date_parts\<close> returns are
  the rows whose cell equals the identifier in every requested date part: the value the
  nested mapping gives for the part or, when the identifier is a date, that part of the
  date. Parts that are not requested play no role.
\<close>

theorem date_parts_match_all_requested:
  "split_on_year_and_month parse
       \<lparr>columns = [''id'', ''date''],
        rows = [[(''id'', PInt 1), (''date'', PDate 2021 5 1)],
                [(''id'', PInt 2), (''date'', PDate 2022 5 1)]]\<rparr>
       ''date'' [(''date'', Mapping [(''year'', PInt 2021), (''month'', PInt 5)])]
     = Inr \<lparr>columns = [''id'', ''date''],
            rows = [[(''id'', PInt 1), (''date'', PDate 2021 5 1)]]\<rparr>
   \<and> (split_on_date_parts parse df column_name batch_identifiers date_parts = Inr d \<longrightarrow>
      convert_date_parts date_parts = Inr ps \<longrightarrow>
        (map_of batch_identifiers column_name = Some (Mapping m) \<longrightarrow>
           rows d = filter (\<lambda>r. \<forall>p\<in>set ps. map_of m (date_part_value p)
                                   = Some (dt_cell p (cell r column_name))) (rows df))
      \<and> (map_of batch_identifiers column_name = Some (Scalar (PDate y mo dd)) \<longrightarrow>
           rows d = filter (\<lambda>r. \<forall>p\<in>set ps. dt_cell p (cell r column_name)
                                   = dt_cell p (PDate y mo dd)) (rows df)))"
proof (intro conjI impI)
  show "split_on_year_and_month parse
       \<lparr>columns = [''id'', ''date''],
        rows = [[(''id'', PInt 1), (''date'', PDate 2021 5 1)],
                [(''id'', PInt 2), (''date'', PDate 2022 5 1)]]\<rparr>
       ''date'' [(''date'', Mapping [(''year'', PInt 2021), (''month'', PInt 5)])]
     = Inr \<lparr>columns = [''id'', ''date''],
            rows = [[(''id'', PInt 1), (''date'', PDate 2021 5 1)]]\<rparr>"
    by (simp add: split_on_year_and_month_def split_on_date_parts_def dict_getitem_def
        convert_datetime_batch_identifiers_to_date_parts_dict_def get_column_def cell_def
        dt_accessor_def accessor_of_name_def series_eq_def py_eq_def filter_mask_def)
next
  assume s: "split_on_date_parts parse df column_name batch_identifiers date_parts = Inr d"
    and c: "convert_date_parts date_parts = Inr ps"
    and b: "map_of batch_identifiers column_name = Some (Mapping m)"
  from s c b obtain dpd where
    r: "resolve_date_parts (\<lambda>p. dict_getitem m (date_part_value p)) ps [] = Inr dpd"
    and l: "date_parts_loop df column_name dpd = Inr d"
    by (auto simp: dict_getitem_def convert_datetime_batch_identifiers_to_date_parts_dict_def
        elim!: split_on_date_parts_Inr)
  have "part_matches column_name dpd =
        (\<lambda>r. \<forall>p\<in>set ps. map_of m (date_part_value p) = Some (dt_cell p (cell r column_name)))"
    unfolding resolve_part_matches [OF r] fun_eq_iff
    by (auto simp: dict_getitem_def split: option.splits)
  then show "rows d = filter (\<lambda>r. \<forall>p\<in>set ps. map_of m (date_part_value p)
                                   = Some (dt_cell p (cell r column_name))) (rows df)"
    using date_parts_loop_rows [OF l] by simp
next
  assume s: "split_on_date_parts parse df column_name batch_identifiers date_parts = Inr d"
    and c: "convert_date_parts date_parts = Inr ps"
    and b: "map_of batch_identifiers column_name = Some (Scalar (PDate y mo dd))"
  from s c b obtain dpd where
    r: "resolve_date_parts (\<lambda>p. date_component p (PDate y mo dd)) ps [] = Inr dpd"
    and l: "date_parts_loop df column_name dpd = Inr d"
    by (auto simp: dict_getitem_def convert_datetime_batch_identifiers_to_date_parts_dict_def
        elim!: split_on_date_parts_Inr)
  have dc: "date_component p (PDate y mo dd) = Inr (dt_cell p (PDate y mo dd))" for p
    by (cases p) simp_all
  have "part_matches column_name dpd =
        (\<lambda>r. \<forall>p\<in>set ps. dt_cell p (cell r column_name) = dt_cell p (PDate y mo dd))"
    unfolding resolve_part_matches [OF r] fun_eq_iff by (auto simp: dc)
  then show "rows d = filter (\<lambda>r. \<forall>p\<in>set ps. dt_cell p (cell r column_name)
                                   = dt_cell p (PDate y mo dd)) (rows df)"
    using date_parts_loop_rows [OF l] by simp
qed

theorem date_parts_match_all_requested_witness:
  "split_on_year_and_month (\<lambda>s. Inl (ValueError s)) example_dates ''date''
       [(''date'', Mapping [(''year'', PInt 2021), (''month'', PInt 5)])]
     = Inr \<lparr>columns = [''id'', ''date''],
            rows = [[(''id'', PInt 1), (''date'', PDate 2021 5 1)]]\<rparr>
   \<and> filter (\<lambda>r. \<forall>p\<in>set [YEAR, MONTH].
                  map_of [(''year'', PInt 2021), (''month'', PInt 5)] (date_part_value p)
                    = Some (dt_cell p (cell r ''date''))) (rows example_dates)
     = [[(''id'', PInt 1), (''date'', PDate 2021 5 1)]]"
proof -
  let ?parse = "\<lambda>s. Inl (ValueError s) :: error + pyval"
  let ?bi = "[(''date'', Mapping [(''year'', PInt 2021), (''month'', PInt 5)])]"
  let ?d = "\<lparr>columns = [''id'', ''date''],
            rows = [[(''id'', PInt 1), (''date'', PDate 2021 5 1)]]\<rparr>"
  note t = date_parts_match_all_requested
             [of ?parse example_dates "''date''" ?bi "[Part YEAR, Part MONTH]" ?d
                 "[YEAR, MONTH]" "[(''year'', PInt 2021), (''month'', PInt 5)]"]
  have s: "split_on_date_parts ?parse example_dates ''date'' ?bi [Part YEAR, Part MONTH] = Inr ?d"
    by (simp add: split_on_date_parts_def dict_getitem_def
        convert_datetime_batch_identifiers_to_date_parts_dict_def example_dates_def
        get_column_def cell_def dt_accessor_def accessor_of_name_def series_eq_def py_eq_def
        filter_mask_def)
  have c: "convert_date_parts [Part YEAR, Part MONTH] = Inr [YEAR, MONTH]" by simp
  have b: "map_of ?bi ''date'' = Some (Mapping [(''year'', PInt 2021), (''month'', PInt 5)])"
    by simp
  from t s c b
  have "rows ?d = filter (\<lambda>r. \<forall>p\<in>set [YEAR, MONTH].
                  map_of [(''year'', PInt 2021), (''month'', PInt 5)] (date_part_value p)
                    = Some (dt_cell p (cell r ''date''))) (rows example_dates)"
    by blast
  moreover from t have "split_on_year_and_month ?parse example_dates ''date'' ?bi = Inr ?d"
    unfolding example_dates_def by blast
  ultimately show ?thesis by simp
qed

section \<open>The order of the date parts\<close>

lemma convert_two:
  "convert_date_parts [a, b] = Inr ps \<Longrightarrow>
   \<exists>p q. ps = [p, q] \<and> convert_date_parts [b, a] = Inr [q, p]"
  by (cases a; cases b) (auto split: option.splits)

lemma resolve_two:
  "resolve_date_parts tg [p, q] [] = Inr dpd \<Longrightarrow>
   \<exists>dpd'. resolve_date_parts tg [q, p] [] = Inr dpd' \<and> set dpd' = set dpd"
  by (auto simp: value_inj split: sum.splits if_splits)

lemma convert_datetime_two:
  assumes "convert_datetime_batch_identifiers_to_date_parts_dict parse cbi [p, q] = Inr dpd"
  shows "\<exists>dpd'. convert_datetime_batch_identifiers_to_date_parts_dict parse cbi [q, p] = Inr dpd'
           \<and> set dpd' = set dpd"
proof (cases cbi)
  case (Mapping m)
  then show ?thesis
    using assms resolve_two [of "\<lambda>p. dict_getitem m (date_part_value p)" p q dpd]
    by (simp add: convert_datetime_batch_identifiers_to_date_parts_dict_def)
next
  case (Scalar v)
  show ?thesis
  proof (cases v)
    case (PStr s)
    then obtain dt where dt: "parse s = Inr dt"
      using assms Scalar
      by (auto simp: convert_datetime_batch_identifiers_to_date_parts_dict_def
          split: sum.splits)
    then show ?thesis
      using assms Scalar PStr resolve_two [of "\<lambda>p. date_component p dt" p q dpd]
      by (simp add: convert_datetime_batch_identifiers_to_date_parts_dict_def)
  qed (use assms Scalar resolve_two [of "\<lambda>p. date_component p v" p q dpd] in
        \<open>simp_all add: convert_datetime_batch_identifiers_to_date_parts_dict_def\<close>)
qed

lemma split_on_date_parts_swap:
  assumes "split_on_date_parts parse df c bi [a, b] = Inr d"
  shows "split_on_date_parts parse df c bi [b, a] = Inr d"
proof -
  from assms obtain ps cbi dpd where
    cv: "convert_date_parts [a, b] = Inr ps" and
    gi: "dict_getitem bi c = Inr cbi" and
    rs: "convert_datetime_batch_identifiers_to_date_parts_dict parse cbi ps = Inr dpd" and
    lp: "date_parts_loop df c dpd = Inr d"
    by (rule split_on_date_parts_Inr)
  from convert_two [OF cv] obtain p q where
    ps: "ps = [p, q]" and cv': "convert_date_parts [b, a] = Inr [q, p]" by blast
  from convert_datetime_two [OF rs [unfolded ps]] obtain dpd' where
    rs': "convert_datetime_batch_identifiers_to_date_parts_dict parse cbi [q, p] = Inr dpd'"
    and st: "set dpd' = set dpd" by blast
  have lp': "date_parts_loop df c dpd' = Inr d"
    using lp date_parts_loop_set [OF st, of df c d] by simp
  show ?thesis
    using convert_imp_validate [OF cv'] cv' gi rs' lp'
    by (simp add: split_on_date_parts_def)
qed

text \<open>
  C7: \<open>split_on_date_parts\<close> returns a dataframe for the date parts \<open>[a, b]\<close> exactly when
  it returns it for \<open>[b, a]\<close>, and then it is the same dataframe, rows and their order
  included; \<open>[YEAR, MONTH]\<close> and \<open>[MONTH, YEAR]\<close> are the instance the claim names.
\<close>

theorem date_parts_order_commutes:
  "(split_on_date_parts parse df column_name batch_identifiers [a, b] = Inr d)
     = (split_on_date_parts parse df column_name batch_identifiers [b, a] = Inr d)"
  using split_on_date_parts_swap by blast

theorem date_parts_order_commutes_witness:
  "split_on_date_parts (\<lambda>s. Inl (ValueError s)) example_dates ''date''
       [(''date'', Scalar (PDate 2022 5 17))] [Part YEAR, Part MONTH]
     = Inr \<lparr>columns = [''id'', ''date''],
            rows = [[(''id'', PInt 2), (''date'', PDate 2022 5 1)]]\<rparr>
   \<and> split_on_date_parts (\<lambda>s. Inl (ValueError s)) example_dates ''date''
       [(''date'', Scalar (PDate 2022 5 17))] [Part MONTH, Part YEAR]
     = Inr \<lparr>columns = [''id'', ''date''],
            rows = [[(''id'', PInt 2), (''date'', PDate 2022 5 1)]]\<rparr>"
proof -
  let ?d = "\<lparr>columns = [''id'', ''date''],
            rows = [[(''id'', PInt 2), (''date'', PDate 2022 5 1)]]\<rparr>"
  have "split_on_date_parts (\<lambda>s. Inl (ValueError s)) example_dates ''date''
       [(''date'', Scalar (PDate 2022 5 17))] [Part YEAR, Part MONTH] = Inr ?d"
    by (simp add: split_on_date_parts_def dict_getitem_def
        convert_datetime_batch_identifiers_to_date_parts_dict_def example_dates_def
        get_column_def cell_def dt_accessor_def accessor_of_name_def series_eq_def py_eq_def
        filter_mask_def)
  then show ?thesis
    using date_parts_order_commutes
            [of "\<lambda>s. Inl (ValueError s)" example_dates "''date''"
                "[(''date'', Scalar (PDate 2022 5 17))]" "Part YEAR" "Part MONTH" ?d]
    by simp
qed

end
